theory Spec2Isabelle
  imports Main "HOL-Library.Word" "HOL-Library.Signed_Division" "HOL-Library.AList"
begin

unbundle bit_operations_syntax

section \<open>Basic types\<close>

type_synonym byte = "8 word"
type_synonym bytes = "byte list"
type_synonym int32 = "32 word"
type_synonym uint32 = "32 word"
type_synonym uint64 = "64 word"

section \<open>Storage keys (chain.go, heightToKey and keyWithSymbolToHeight)\<close>

text \<open>
  \<^verbatim>\<open>binary.BigEndian.PutUint32(b, v)\<close> stores \<^verbatim>\<open>byte(v >> 24)\<close>, \<^verbatim>\<open>byte(v >> 16)\<close>,
  \<^verbatim>\<open>byte(v >> 8)\<close>, \<^verbatim>\<open>byte(v)\<close> in \<^verbatim>\<open>b[0..3]\<close>.
\<close>

definition PutUint32 :: "uint32 \<Rightarrow> bytes" where
  "PutUint32 v = [ucast (drop_bit 24 v), ucast (drop_bit 16 v), ucast (drop_bit 8 v), ucast v]"

text \<open>
  \<^verbatim>\<open>binary.BigEndian.Uint32(b)\<close> reads \<^verbatim>\<open>b[0..3]\<close>; on a slice shorter than four
  bytes the Go runtime panics (index out of range), which is \<open>None\<close> here.
\<close>

fun Uint32 :: "bytes \<Rightarrow> uint32 option" where
  "Uint32 (b0 # b1 # b2 # b3 # rest) =
     Some (ucast b3 OR push_bit 8 (ucast b2) OR push_bit 16 (ucast b1) OR push_bit 24 (ucast b0))"
| "Uint32 _ = None"

text \<open>\<^verbatim>\<open>heightToKey\<close>: the conversion \<^verbatim>\<open>uint32(h)\<close> keeps the 32 bits.\<close>

definition heightToKey :: "int32 \<Rightarrow> bytes" where
  "heightToKey h = PutUint32 h"

text \<open>
  \<^verbatim>\<open>keyWithSymbolToHeight\<close>: \<open>-1\<close> on a key shorter than 8 bytes, else the big-endian
  value of \<^verbatim>\<open>k[4:]\<close>. The result is \<open>None\<close> only where the Go code would panic.
\<close>

definition keyWithSymbolToHeight :: "bytes \<Rightarrow> int32 option" where
  "keyWithSymbolToHeight k = (if length k < 8 then Some (- 1) else Uint32 (drop 4 k))"

section \<open>Data model\<close>

text \<open>
  Modelled from the spec: the types of the packages \<^verbatim>\<open>types\<close>, \<^verbatim>\<open>proto\<close>, \<^verbatim>\<open>hash\<close> and
  \<^verbatim>\<open>asymmetric\<close>, whose declarations are not part of the sources. The records below have
  the fields that \<^verbatim>\<open>chain.go\<close> reads or writes, named as there, with the meaning of spec 3.
  A hash and an account address are 32 bytes; a public key is its serialised bytes.
\<close>

type_synonym Hash = bytes
type_synonym NodeID = string
type_synonym AccountAddress = bytes
type_synonym DatabaseID = string
type_synonym PublicKey = bytes

text \<open>
  \<^verbatim>\<open>time.Time\<close> and \<^verbatim>\<open>time.Duration\<close> are counted in nanoseconds.
\<close>

type_synonym time = int
type_synonym Duration = int

text \<open>
  Error values. \<open>Wrapf msg e\<close> is \<^verbatim>\<open>errors.Wrapf(e, msg, ...)\<close> with the format string kept
  and its arguments left out; \<open>External msg\<close> is an error value handed back by a collaborator
  outside \<^verbatim>\<open>chain.go\<close> (codec, LevelDB, signature verification, SQL state, RPC).
  \<open>ErrResponseAbsent\<close> and \<open>ErrSignatureMismatch\<close> are the two failures of the ack index's
  \<^verbatim>\<open>register\<close>.
\<close>

datatype error =
    ErrInvalidBlock
  | ErrUnknownProducer
  | ErrInvalidProducer
  | ErrQueryExpired
  | ErrResponseAbsent
  | ErrSignatureMismatch
  | External string
  | Wrapf string error

text \<open>What a call gives back: it returns a value or it panics.\<close>

datatype 'a outcome = Returns 'a | Panics string

datatype QueryType = ReadQuery | WriteQuery

text \<open>
  A request with the fields \<^verbatim>\<open>Header.QueryType\<close>, \<^verbatim>\<open>Header.Signee\<close> and
  \<^verbatim>\<open>Payload.Queries\<close>.
\<close>

record Request =
  req_QueryType :: QueryType
  req_Signee :: PublicKey
  req_Queries :: "string list"

text \<open>
  A signed response header (spec 3: request timestamp, response timestamp, miner identity,
  row count, affected rows, signature) with its hash. \<^verbatim>\<open>AffectedRows\<close> is an \<^verbatim>\<open>int64\<close>;
  \<^verbatim>\<open>billing\<close> converts it with \<^verbatim>\<open>uint64(...)\<close>, which keeps the 64 bits.
\<close>

record SignedResponseHeader =
  resp_Hash :: Hash
  resp_RequestTimestamp :: time
  resp_Timestamp :: time
  ResponseAccount :: AccountAddress
  RowCount :: uint64
  AffectedRows :: "64 word"
  resp_Signature :: bytes

text \<open>
  A signed ack header: its hash, its own timestamp (the field \<^verbatim>\<open>ack.Timestamp\<close>) and the
  response that it acknowledges, from which \<^verbatim>\<open>GetRequestTimestamp()\<close> and
  \<^verbatim>\<open>GetResponseTimestamp()\<close> read the two timestamps.
\<close>

record SignedAckHeader =
  ack_Hash :: Hash
  ack_Timestamp :: time
  ack_Response :: SignedResponseHeader

definition GetRequestTimestamp :: "SignedAckHeader \<Rightarrow> time" where
  "GetRequestTimestamp ack = resp_RequestTimestamp (ack_Response ack)"

definition GetResponseTimestamp :: "SignedAckHeader \<Rightarrow> time" where
  "GetResponseTimestamp ack = resp_Timestamp (ack_Response ack)"

record QueryAsTx =
  tx_Request :: Request
  tx_Response :: SignedResponseHeader

text \<open>
  A block: the fields of the header that \<^verbatim>\<open>produceBlock\<close> sets, the hash and the signee
  set by signing, and the three lists of the body.
\<close>

record Block =
  Version :: int32
  Producer :: NodeID
  GenesisHash :: Hash
  ParentHash :: Hash
  MerkleRoot :: Hash
  Timestamp :: time
  BlockHash :: Hash
  Signee :: PublicKey
  FailedReqs :: "Request list"
  QueryTxs :: "QueryAsTx list"
  Acks :: "SignedAckHeader list"

text \<open>
  A block node holds its parent by pointer; the chain of parents is a finite linked list, so
  the node is a recursive datatype with an optional parent and an optional cached body.
\<close>

datatype blockNode =
  BlockNode (node_hash: Hash) (node_height: int32) (node_count: int32)
            (node_block: "Block option") (node_parent: "blockNode option")

text \<open>
  Modelled from the spec: \<^verbatim>\<open>newBlockNode\<close> (the block index is not part of the sources).
  Spec 3: a node has the block's hash, the height derived from the timestamp, count = parent
  count + 1 with genesis at 0, the parent back-reference and the cached body.
\<close>

definition newBlockNode :: "int32 \<Rightarrow> Block \<Rightarrow> blockNode option \<Rightarrow> blockNode" where
  "newBlockNode h b parent =
     BlockNode (BlockHash b) h (case parent of None \<Rightarrow> 0 | Some p \<Rightarrow> node_count p + 1)
               (Some b) parent"

text \<open>
  Modelled from the spec: \<^verbatim>\<open>blockNode.indexKey\<close>. Spec 4.1: a block key is the tag, then
  the big-endian height, then the block hash; the index key is the part after the tag.
\<close>

definition indexKey :: "blockNode \<Rightarrow> bytes" where
  "indexKey n = heightToKey (node_height n) @ node_hash n"

text \<open>
  Modelled from the spec: \<^verbatim>\<open>blockNode.ancestor\<close>. Spec 4.2: walk parent pointers until
  node.height \<le> height; absent when the walk climbs past genesis.
\<close>

fun ancestor :: "blockNode option \<Rightarrow> int32 \<Rightarrow> blockNode option" where
  "ancestor None h = None"
| "ancestor (Some (BlockNode hs ht cnt blk par)) h =
     (if ht \<le>s h then Some (BlockNode hs ht cnt blk par) else ancestor par h)"

type_synonym blockIndex = "Hash \<rightharpoonup> blockNode"

text \<open>Modelled from the spec: \<^verbatim>\<open>blockIndex.addBlock\<close>, spec 4.2: register by hash.\<close>

definition addBlock :: "blockNode \<Rightarrow> blockIndex \<Rightarrow> blockIndex" where
  "addBlock n idx = idx(node_hash n \<mapsto> n)"

text \<open>The head state \<^verbatim>\<open>state{node, Head, Height}\<close>.\<close>

record state =
  node :: "blockNode option"
  Head :: Hash
  Height :: int32

subsection \<open>Runtime\<close>

text \<open>
  Modelled from the spec: the \<^verbatim>\<open>runtime\<close> struct and its accessors \<^verbatim>\<open>getHead\<close>, \<^verbatim>\<open>setHead\<close>,
  \<^verbatim>\<open>getPeers\<close> and \<^verbatim>\<open>getNextTurn\<close>, which are not part of the sources. Spec 4.4: the runtime
  owns the genesis timestamp, the turn period, the server identity, the peer list, the head
  state, the next-turn counter and the block-cache TTL; the query TTL is the Q of spec 4.3.
\<close>

record runtime =
  chainInitTime :: time
  period :: Duration
  queryTTL :: int32
  blockCacheTTL :: int32
  peers :: "NodeID list"
  server :: NodeID
  nextTurn :: int32
  head :: state

definition getHead :: "runtime \<Rightarrow> state" where
  "getHead r = head r"

definition setHead :: "state \<Rightarrow> runtime \<Rightarrow> runtime" where
  "setHead h r = r\<lparr>head := h\<rparr>"

definition getPeers :: "runtime \<Rightarrow> NodeID list" where
  "getPeers r = peers r"

definition getNextTurn :: "runtime \<Rightarrow> int32" where
  "getNextTurn r = nextTurn r"

text \<open>
  Modelled from the spec: \<^verbatim>\<open>runtime.getHeightFromTime\<close>. Spec 4.4: height-of(t) is the floor of
  (t - genesis) / period; the callers in \<^verbatim>\<open>chain.go\<close> use the result as an \<^verbatim>\<open>int32\<close>.
\<close>

definition getHeightFromTime :: "runtime \<Rightarrow> time \<Rightarrow> int32" where
  "getHeightFromTime r t = word_of_int ((t - chainInitTime r) div period r)"

text \<open>
  Modelled from the spec: \<^verbatim>\<open>runtime.getMinValidHeight\<close>. Spec 4.3: min-valid-height is
  head.height - Q, where Q is the query TTL in turns.
\<close>

definition getMinValidHeight :: "runtime \<Rightarrow> int32" where
  "getMinValidHeight r = Height (getHead r) - queryTTL r"

text \<open>
  Modelled from the spec: \<^verbatim>\<open>runtime.queryTimeIsExpired\<close>. Spec 4.3: a timestamp whose height
  is below min-valid-height is expired.
\<close>

definition queryTimeIsExpired :: "runtime \<Rightarrow> time \<Rightarrow> bool" where
  "queryTimeIsExpired r t \<longleftrightarrow> getHeightFromTime r t <s getMinValidHeight r"


text \<open>
  Go's \<^verbatim>\<open>%\<close> on \<^verbatim>\<open>int32\<close> truncates towards zero: the remainder has the sign of the dividend.
  A zero divisor panics in Go; every use below is guarded by \<^verbatim>\<open>total > 0\<close>.
\<close>

definition rem32 :: "int32 \<Rightarrow> int32 \<Rightarrow> int32" where
  "rem32 a b = word_of_int (sint a smod sint b)"

text \<open>
  Modelled from the spec: \<^verbatim>\<open>proto.Peers.Find\<close>, the index of the producer in the peer list
  and whether it is there (spec 4.5.3, step 5).
\<close>

fun findFrom :: "nat \<Rightarrow> NodeID list \<Rightarrow> NodeID \<Rightarrow> int32 \<times> bool" where
  "findFrom i [] key = (0, False)"
| "findFrom i (s # ss) key = (if key = s then (word_of_nat i, True) else findFrom (Suc i) ss key)"

definition Find :: "NodeID list \<Rightarrow> NodeID \<Rightarrow> int32 \<times> bool" where
  "Find servers key = findFrom 0 servers key"

text \<open>
  The expected producer slot, the closure \<^verbatim>\<open>next\<close> of \<^verbatim>\<open>CheckAndPushNewBlock\<close>:
  \<^verbatim>\<open>(nextTurn - 1) % total\<close> when \<^verbatim>\<open>total > 0\<close>, else \<open>-1\<close>.
\<close>

definition nextProducer :: "runtime \<Rightarrow> int32" where
  "nextProducer r =
     (let total = (word_of_nat (length (getPeers r)) :: int32)
      in if 0 <s total then rem32 (getNextTurn r - 1) total else - 1)"


subsection \<open>Ack index\<close>

text \<open>
  Modelled from the spec: the ack index (\<^verbatim>\<open>ackIndex\<close> with \<^verbatim>\<open>addResponse\<close>, \<^verbatim>\<open>register\<close>,
  \<^verbatim>\<open>remove\<close>, \<^verbatim>\<open>advance\<close>), whose source is not part of the sources. Spec 4.3: buckets of
  pending responses and acks keyed by height; \<^verbatim>\<open>addResponse\<close> records the response in bucket
  h; \<^verbatim>\<open>register\<close> associates the ack with the previously seen response in bucket h and
  fails if the response is absent or the signature does not match; \<^verbatim>\<open>remove\<close> deletes the
  ack from the bucket; \<^verbatim>\<open>advance\<close> drops all buckets with height below minValid.
\<close>

record ackBucket =
  bk_responses :: "Hash \<rightharpoonup> SignedResponseHeader"
  bk_acks :: "Hash \<rightharpoonup> SignedAckHeader"

type_synonym ackIndex = "int32 \<rightharpoonup> ackBucket"

definition emptyBucket :: ackBucket where
  "emptyBucket = \<lparr>bk_responses = Map.empty, bk_acks = Map.empty\<rparr>"

definition ai_addResponse :: "int32 \<Rightarrow> SignedResponseHeader \<Rightarrow> ackIndex \<Rightarrow> error + ackIndex" where
  "ai_addResponse h resp idx =
     (let b = (case idx h of None \<Rightarrow> emptyBucket | Some b \<Rightarrow> b)
      in Inr (idx(h \<mapsto> b\<lparr>bk_responses := (bk_responses b)(resp_Hash resp \<mapsto> resp)\<rparr>)))"

definition ai_register :: "int32 \<Rightarrow> SignedAckHeader \<Rightarrow> ackIndex \<Rightarrow> error + ackIndex" where
  "ai_register h ack idx =
     (case idx h of
        None \<Rightarrow> Inl ErrResponseAbsent
      | Some b \<Rightarrow>
          (case bk_responses b (resp_Hash (ack_Response ack)) of
             None \<Rightarrow> Inl ErrResponseAbsent
           | Some r \<Rightarrow>
               if resp_Signature r \<noteq> resp_Signature (ack_Response ack)
               then Inl ErrSignatureMismatch
               else Inr (idx(h \<mapsto> b\<lparr>bk_acks := (bk_acks b)(ack_Hash ack \<mapsto> ack)\<rparr>))))"

definition ai_remove :: "int32 \<Rightarrow> SignedAckHeader \<Rightarrow> ackIndex \<Rightarrow> error + ackIndex" where
  "ai_remove h ack idx =
     (case idx h of
        None \<Rightarrow> Inr idx
      | Some b \<Rightarrow> Inr (idx(h \<mapsto> b\<lparr>bk_acks := (bk_acks b)(ack_Hash ack := None)\<rparr>)))"


text \<open>The ack is registered in bucket \<open>h\<close> of the index.\<close>

definition isRegistered :: "ackIndex \<Rightarrow> int32 \<Rightarrow> SignedAckHeader \<Rightarrow> bool" where
  "isRegistered idx h ack \<longleftrightarrow>
     (case idx h of None \<Rightarrow> False | Some b \<Rightarrow> bk_acks b (ack_Hash ack) = Some ack)"

subsection \<open>Billing update\<close>

text \<open>
  \<^verbatim>\<open>types.UpdateBilling\<close> with its header: the receiver, a slice of per-user costs, each with
  a slice of per-miner incomes, the account nonce and the signature set by \<^verbatim>\<open>Sign\<close>.
\<close>

record MinerIncome =
  Miner :: AccountAddress
  Income :: uint64

record UserCost =
  User :: AccountAddress
  Cost :: uint64
  Miners :: "MinerIncome list"

record UpdateBilling =
  ub_Receiver :: AccountAddress
  ub_Users :: "UserCost list"
  ub_Nonce :: uint32
  ub_Signature :: "bytes option"

subsection \<open>Collaborators\<close>

text \<open>
  The collaborators that \<^verbatim>\<open>chain.go\<close> calls and that live outside it: each field gives, for
  the arguments of a call, what the call returns. A \<^verbatim>\<open>Put\<close> or \<^verbatim>\<open>Get\<close> of LevelDB fails
  where the fault function gives an error text.
\<close>

record collaborators =
  EncodeBlock :: "Block \<Rightarrow> string + bytes"
  EncodeAck :: "SignedAckHeader \<Rightarrow> string + bytes"
  DecodeBlock :: "bytes \<Rightarrow> string + Block"
  bdbPutFault :: "bytes \<Rightarrow> bytes \<Rightarrow> string option"
  bdbGetFault :: "bytes \<Rightarrow> string option"
  tdbPutFault :: "bytes \<Rightarrow> bytes \<Rightarrow> string option"
  BlockVerify :: "Block \<Rightarrow> string option"
  AckVerify :: "SignedAckHeader \<Rightarrow> string option"
  ReplayBlock :: "Block \<Rightarrow> string option"
  PubKeyHash :: "PublicKey \<Rightarrow> string + AccountAddress"
  DatabaseAccountAddress :: "DatabaseID \<Rightarrow> string + AccountAddress"
  NextAccountNonce :: "AccountAddress \<Rightarrow> string + uint32"
  SignTx :: "UpdateBilling \<Rightarrow> string + bytes"
  AddTx :: "UpdateBilling \<Rightarrow> string option"

subsection \<open>The chain\<close>

text \<open>
  \<open>st\<close> stands for the SQL state: the blocks replayed into it so far. \<open>blocks\<close> and
  \<open>heights\<close> are the contents of the two channels.
\<close>

record Chain =
  bdb :: "bytes \<rightharpoonup> bytes"
  tdb :: "bytes \<rightharpoonup> bytes"
  bi :: blockIndex
  ai :: ackIndex
  st :: "Block list"
  rt :: runtime
  blocks :: "Block list"
  heights :: "int32 list"
  databaseID :: DatabaseID
  updatePeriod :: uint64
  addr :: AccountAddress

definition metaBlockIndex :: bytes where
  "metaBlockIndex = [0x42, 0x4C, 0x43, 0x4B]"

definition metaResponseIndex :: bytes where
  "metaResponseIndex = [0x52, 0x45, 0x53, 0x50]"

definition metaAckIndex :: bytes where
  "metaAckIndex = [0x51, 0x41, 0x43, 0x4B]"

definition bdb_Put :: "collaborators \<Rightarrow> bytes \<Rightarrow> bytes \<Rightarrow> Chain \<Rightarrow> error + Chain" where
  "bdb_Put ext k v c =
     (case bdbPutFault ext k v of
        Some e \<Rightarrow> Inl (External e)
      | None \<Rightarrow> Inr (c\<lparr>bdb := (bdb c)(k \<mapsto> v)\<rparr>))"

definition bdb_Get :: "collaborators \<Rightarrow> bytes \<Rightarrow> Chain \<Rightarrow> error + bytes" where
  "bdb_Get ext k c =
     (case bdbGetFault ext k of
        Some e \<Rightarrow> Inl (External e)
      | None \<Rightarrow> (case bdb c k of None \<Rightarrow> Inl (External ''leveldb: not found'') | Some v \<Rightarrow> Inr v))"

definition tdb_Put :: "collaborators \<Rightarrow> bytes \<Rightarrow> bytes \<Rightarrow> Chain \<Rightarrow> error + Chain" where
  "tdb_Put ext k v c =
     (case tdbPutFault ext k v of
        Some e \<Rightarrow> Inl (External e)
      | None \<Rightarrow> Inr (c\<lparr>tdb := (tdb c)(k \<mapsto> v)\<rparr>))"

text \<open>\<^verbatim>\<open>Chain.AddResponse\<close>, \<^verbatim>\<open>Chain.register\<close>, \<^verbatim>\<open>Chain.remove\<close>.\<close>

definition AddResponse :: "SignedResponseHeader \<Rightarrow> Chain \<Rightarrow> error + Chain" where
  "AddResponse resp c =
     (case ai_addResponse (getHeightFromTime (rt c) (resp_RequestTimestamp resp)) resp (ai c) of
        Inl e \<Rightarrow> Inl e
      | Inr idx \<Rightarrow> Inr (c\<lparr>ai := idx\<rparr>))"

definition register :: "SignedAckHeader \<Rightarrow> Chain \<Rightarrow> error + Chain" where
  "register ack c =
     (case ai_register (getHeightFromTime (rt c) (GetRequestTimestamp ack)) ack (ai c) of
        Inl e \<Rightarrow> Inl e
      | Inr idx \<Rightarrow> Inr (c\<lparr>ai := idx\<rparr>))"

definition remove :: "SignedAckHeader \<Rightarrow> Chain \<Rightarrow> error + Chain" where
  "remove ack c =
     (case ai_remove (getHeightFromTime (rt c) (GetRequestTimestamp ack)) ack (ai c) of
        Inl e \<Rightarrow> Inl e
      | Inr idx \<Rightarrow> Inr (c\<lparr>ai := idx\<rparr>))"

text \<open>
  The two loops at the end of \<^verbatim>\<open>pushBlock\<close>: a failure is logged and the loop goes on.
\<close>

fun addResponses :: "QueryAsTx list \<Rightarrow> Chain \<Rightarrow> Chain" where
  "addResponses [] c = c"
| "addResponses (v # vs) c =
     (case AddResponse (tx_Response v) c of
        Inl ierr \<Rightarrow> addResponses vs c
      | Inr c' \<Rightarrow> addResponses vs c')"

fun removeAcks :: "SignedAckHeader list \<Rightarrow> Chain \<Rightarrow> Chain" where
  "removeAcks [] c = c"
| "removeAcks (v # vs) c =
     (case remove v c of
        Inl ierr \<Rightarrow> removeAcks vs c
      | Inr c' \<Rightarrow> removeAcks vs c')"

text \<open>
  \<^verbatim>\<open>Chain.pushBlock\<close>: the pair is what the call gives back, the error returned (\<open>None\<close> for
  nil) or a panic, and the chain it leaves. The log line at the end slices
  \<^verbatim>\<open>b.Producer()[:8]\<close>, which panics on a producer id of fewer than 8 characters, after the
  block has been stored and the head, the block index and the ack index have been updated.
  The other slices of that line are taken from the 64 characters of a hash.
\<close>

definition pushBlock ::
  "collaborators \<Rightarrow> Block \<Rightarrow> Chain \<Rightarrow> error option outcome \<times> Chain" where
  "pushBlock ext b c =
     (let h = getHeightFromTime (rt c) (Timestamp b);
          nd = newBlockNode h b (node (getHead (rt c)));
          hd' = \<lparr>node = Some nd, Head = node_hash nd, Height = node_height nd\<rparr>;
          blockKey = metaBlockIndex @ indexKey nd
      in case EncodeBlock ext b of
           Inl e \<Rightarrow> (Returns (Some (External e)), c)
         | Inr encBlock \<Rightarrow>
             (case bdb_Put ext blockKey encBlock c of
                Inl e \<Rightarrow> (Returns (Some (Wrapf ''put %s'' e)), c)
              | Inr c1 \<Rightarrow>
                  (let c2 = c1\<lparr>rt := setHead hd' (rt c1)\<rparr>;
                       c3 = c2\<lparr>bi := addBlock nd (bi c2)\<rparr>;
                       c4 = addResponses (QueryTxs b) c3;
                       c5 = removeAcks (Acks b) c4
                   in if length (Producer b) < 8
                      then (Panics ''slice bounds out of range'', c5)
                      else (Returns None, c5))))"

text \<open>
  \<^verbatim>\<open>ReplayBlockWithContext\<close> of the SQL state: a failure is returned, a success applies the
  block.
\<close>

definition ReplayBlockWithContext :: "collaborators \<Rightarrow> Block \<Rightarrow> Chain \<Rightarrow> error + Chain" where
  "ReplayBlockWithContext ext b c =
     (case ReplayBlock ext b of
        Some e \<Rightarrow> Inl (External e)
      | None \<Rightarrow> Inr (c\<lparr>st := st c @ [b]\<rparr>))"

text \<open>\<^verbatim>\<open>Chain.CheckAndPushNewBlock\<close>.\<close>

definition CheckAndPushNewBlock ::
  "collaborators \<Rightarrow> Block \<Rightarrow> Chain \<Rightarrow> error option outcome \<times> Chain" where
  "CheckAndPushNewBlock ext block c =
     (let height = getHeightFromTime (rt c) (Timestamp block);
          hd = getHead (rt c);
          prs = getPeers (rt c);
          next = nextProducer (rt c)
      in if Height hd = height \<and> Head hd = BlockHash block then (Returns None, c)
         else if ParentHash block \<noteq> Head hd then (Returns (Some ErrInvalidBlock), c)
         else
           (case BlockVerify ext block of
              Some e \<Rightarrow> (Returns (Some (External e)), c)
            | None \<Rightarrow>
                if Producer block = server (rt c) then pushBlock ext block c
                else
                  (case Find prs (Producer block) of
                     (index, found) \<Rightarrow>
                       if \<not> found then (Returns (Some ErrUnknownProducer), c)
                       else if index \<noteq> next then (Returns (Some ErrInvalidProducer), c)
                       else
                         (case ReplayBlockWithContext ext block c of
                            Inl e \<Rightarrow> (Returns (Some e), c)
                          | Inr c1 \<Rightarrow> pushBlock ext block c1))))"

text \<open>\<^verbatim>\<open>Chain.pushAckedQuery\<close>.\<close>

definition pushAckedQuery :: "collaborators \<Rightarrow> SignedAckHeader \<Rightarrow> Chain \<Rightarrow> error option \<times> Chain" where
  "pushAckedQuery ext ack c =
     (let h = getHeightFromTime (rt c) (GetResponseTimestamp ack);
          k = heightToKey h
      in case EncodeAck ext ack of
           Inl e \<Rightarrow> (Some (External e), c)
         | Inr enc \<Rightarrow>
             (let tdbKey = metaAckIndex @ k @ ack_Hash ack
              in case register ack c of
                   Inl e \<Rightarrow> (Some (Wrapf ''register ack %v at height %d'' e), c)
                 | Inr c1 \<Rightarrow>
                     (case tdb_Put ext tdbKey enc c1 of
                        Inl e \<Rightarrow> (Some (Wrapf ''put ack %d %s'' e), c1)
                      | Inr c2 \<Rightarrow> (None, c2))))"

text \<open>\<^verbatim>\<open>Chain.VerifyAndPushAckedQuery\<close>.\<close>

definition VerifyAndPushAckedQuery ::
  "collaborators \<Rightarrow> SignedAckHeader \<Rightarrow> Chain \<Rightarrow> error option \<times> Chain" where
  "VerifyAndPushAckedQuery ext ack c =
     (if queryTimeIsExpired (rt c) (GetResponseTimestamp ack)
      then (Some (Wrapf ''Verify ack query, min valid height %d, ack height %d'' ErrQueryExpired), c)
      else
        (case AckVerify ext ack of
           Some e \<Rightarrow> (Some (External e), c)
         | None \<Rightarrow> pushAckedQuery ext ack c))"

text \<open>The key under which \<^verbatim>\<open>pushBlock\<close> stores block \<open>b\<close> (its local \<^verbatim>\<open>blockKey\<close>).\<close>

definition blockKey :: "Chain \<Rightarrow> Block \<Rightarrow> bytes" where
  "blockKey c b =
     metaBlockIndex @
     indexKey (newBlockNode (getHeightFromTime (rt c) (Timestamp b)) b (node (getHead (rt c))))"

text \<open>The key under which \<^verbatim>\<open>pushAckedQuery\<close> stores the ack (its local \<^verbatim>\<open>tdbKey\<close>).\<close>

definition ackKey :: "Chain \<Rightarrow> SignedAckHeader \<Rightarrow> bytes" where
  "ackKey c ack =
     metaAckIndex @ heightToKey (getHeightFromTime (rt c) (GetResponseTimestamp ack)) @ ack_Hash ack"

text \<open>The error that the expiry check of \<^verbatim>\<open>VerifyAndPushAckedQuery\<close> returns.\<close>

definition expiredError :: error where
  "expiredError = Wrapf ''Verify ack query, min valid height %d, ack height %d'' ErrQueryExpired"

section \<open>Billing (chain.go, FetchBlock, billing and the billing branch of processBlocks)\<close>

text \<open>
  A computation that can also return an error or panic: \<open>Ok\<close> is the normal result,
  \<open>Err\<close> the returned error, \<open>Panic\<close> a run-time panic of Go.
\<close>

datatype 'a res = Ok 'a | Err error | Panic string

text \<open>\<^verbatim>\<open>Chain.fetchBlockByIndexKey\<close>.\<close>

definition fetchBlockByIndexKey :: "collaborators \<Rightarrow> bytes \<Rightarrow> Chain \<Rightarrow> error + Block" where
  "fetchBlockByIndexKey ext ik c =
     (let k = metaBlockIndex @ ik
      in case bdb_Get ext k c of
           Inl e \<Rightarrow> Inl (Wrapf ''fetch block %s'' e)
         | Inr v \<Rightarrow>
             (case DecodeBlock ext v of
                Inl e \<Rightarrow> Inl (Wrapf ''fetch block %s'' (External e))
              | Inr b \<Rightarrow> Inr b))"

text \<open>
  \<^verbatim>\<open>Chain.FetchBlock\<close>: the block is \<open>None\<close> (nil, with a nil error) when the head has no
  ancestor at or below the height.
\<close>

definition FetchBlock :: "collaborators \<Rightarrow> int32 \<Rightarrow> Chain \<Rightarrow> error + Block option" where
  "FetchBlock ext height c =
     (case ancestor (node (getHead (rt c))) height of
        None \<Rightarrow> Inr None
      | Some n \<Rightarrow>
          (case fetchBlockByIndexKey ext (indexKey n) c of
             Inl e \<Rightarrow> Inl e
           | Inr b \<Rightarrow> Inr (Some b)))"

text \<open>
  The two maps of \<^verbatim>\<open>billing\<close>, as association lists. \<open>addCost k v m\<close> is Go's
  \<^verbatim>\<open>m[k] += v\<close> on \<^verbatim>\<open>uint64\<close> values (a missing key reads as 0, the sum wraps), and
  \<open>addMinerCost u k v mm\<close> is \<^verbatim>\<open>mm[u][k] += v\<close>, which panics when \<^verbatim>\<open>mm[u]\<close> is nil.
\<close>

type_synonym costMap = "(AccountAddress \<times> uint64) list"
type_synonym minerMap = "(AccountAddress \<times> costMap) list"

definition addCost :: "AccountAddress \<Rightarrow> uint64 \<Rightarrow> costMap \<Rightarrow> costMap" where
  "addCost k v m = AList.update k ((case map_of m k of None \<Rightarrow> 0 | Some x \<Rightarrow> x) + v) m"

definition addMinerCost ::
  "AccountAddress \<Rightarrow> AccountAddress \<Rightarrow> uint64 \<Rightarrow> minerMap \<Rightarrow> minerMap res" where
  "addMinerCost u k v mm =
     (case map_of mm u of
        None \<Rightarrow> Panic ''assignment to entry in nil map''
      | Some inner \<Rightarrow> Ok (AList.update u (addCost k v inner) mm))"

text \<open>The body of the loop over \<^verbatim>\<open>block.QueryTxs\<close> (chain.go 1000 to 1015).\<close>

definition billQueryTx ::
  "collaborators \<Rightarrow> QueryAsTx \<Rightarrow> costMap \<times> minerMap \<Rightarrow> (costMap \<times> minerMap) res" where
  "billQueryTx ext tx acc =
     (case acc of
        (usersMap, minersMap) \<Rightarrow>
          (let minerAddr = ResponseAccount (tx_Response tx)
           in case PubKeyHash ext (req_Signee (tx_Request tx)) of
                Inl e \<Rightarrow> Err (External e)
              | Inr userAddr \<Rightarrow>
                  (let minersMap1 =
                         (case map_of minersMap userAddr of
                            None \<Rightarrow> AList.update userAddr [] minersMap
                          | Some inner \<Rightarrow> minersMap);
                       credit =
                         (if req_QueryType (tx_Request tx) = ReadQuery
                          then RowCount (tx_Response tx)
                          else AffectedRows (tx_Response tx))
                   in case addMinerCost userAddr minerAddr credit minersMap1 of
                        Ok minersMap2 \<Rightarrow> Ok (addCost userAddr credit usersMap, minersMap2)
                      | Err e \<Rightarrow> Err e
                      | Panic s \<Rightarrow> Panic s)))"

fun billQueryTxs ::
  "collaborators \<Rightarrow> QueryAsTx list \<Rightarrow> costMap \<times> minerMap \<Rightarrow> (costMap \<times> minerMap) res" where
  "billQueryTxs ext [] acc = Ok acc"
| "billQueryTxs ext (tx # txs) acc =
     (case billQueryTx ext tx acc of
        Ok acc' \<Rightarrow> billQueryTxs ext txs acc'
      | Err e \<Rightarrow> Err e
      | Panic s \<Rightarrow> Panic s)"

text \<open>
  The body of the loop over \<^verbatim>\<open>block.FailedReqs\<close> (chain.go 1019 to 1032). The test before
  the \<^verbatim>\<open>make\<close> looks up \<^verbatim>\<open>minersMap[userAddr][minerAddr]\<close>, which reads as absent both when
  the user has no map and when the user's map has no entry for this miner.
\<close>

definition billFailedReq ::
  "collaborators \<Rightarrow> Block \<Rightarrow> Request \<Rightarrow> costMap \<times> minerMap \<Rightarrow> (costMap \<times> minerMap) res" where
  "billFailedReq ext block req acc =
     (case acc of
        (usersMap, minersMap) \<Rightarrow>
          (case PubKeyHash ext (Signee block) of
             Inl e \<Rightarrow> Err (External e)
           | Inr minerAddr \<Rightarrow>
               (case PubKeyHash ext (req_Signee req) of
                  Inl e \<Rightarrow> Err (External e)
                | Inr userAddr \<Rightarrow>
                    (let ok =
                           (case map_of minersMap userAddr of
                              None \<Rightarrow> False
                            | Some inner \<Rightarrow> map_of inner minerAddr \<noteq> None);
                         minersMap1 =
                           (if \<not> ok then AList.update userAddr [] minersMap else minersMap);
                         credit = (word_of_nat (length (req_Queries req)) :: uint64)
                     in case addMinerCost userAddr minerAddr credit minersMap1 of
                          Ok minersMap2 \<Rightarrow> Ok (addCost userAddr credit usersMap, minersMap2)
                        | Err e \<Rightarrow> Err e
                        | Panic s \<Rightarrow> Panic s))))"

fun billFailedReqs ::
  "collaborators \<Rightarrow> Block \<Rightarrow> Request list \<Rightarrow> costMap \<times> minerMap \<Rightarrow> (costMap \<times> minerMap) res"
  where
  "billFailedReqs ext block [] acc = Ok acc"
| "billFailedReqs ext block (req # reqs) acc =
     (case billFailedReq ext block req acc of
        Ok acc' \<Rightarrow> billFailedReqs ext block reqs acc'
      | Err e \<Rightarrow> Err e
      | Panic s \<Rightarrow> Panic s)"

text \<open>
  The loop of \<^verbatim>\<open>billing\<close> over the nodes, \<^verbatim>\<open>for i = 0; i < c.updatePeriod && node != nil; i++\<close>.
  A body that is not cached is fetched from the store; a nil block from \<^verbatim>\<open>FetchBlock\<close> is
  dereferenced by \<^verbatim>\<open>block.QueryTxs\<close>, which panics.
\<close>

fun billingLoop ::
  "collaborators \<Rightarrow> Chain \<Rightarrow> uint64 \<Rightarrow> blockNode option \<Rightarrow> costMap \<times> minerMap
     \<Rightarrow> (costMap \<times> minerMap) res" where
  "billingLoop ext c i None acc = Ok acc"
| "billingLoop ext c i (Some (BlockNode hs ht cnt blk par)) acc =
     (if \<not> i < updatePeriod c then Ok acc
      else
        (case (case blk of
                 Some b \<Rightarrow> Inr (Some b)
               | None \<Rightarrow> FetchBlock ext ht c) of
           Inl e \<Rightarrow> Err e
         | Inr None \<Rightarrow> Panic ''invalid memory address or nil pointer dereference''
         | Inr (Some block) \<Rightarrow>
             (case billQueryTxs ext (QueryTxs block) acc of
                Err e \<Rightarrow> Err e
              | Panic s \<Rightarrow> Panic s
              | Ok acc1 \<Rightarrow>
                  (case billFailedReqs ext block (FailedReqs block) acc1 of
                     Err e \<Rightarrow> Err e
                   | Panic s \<Rightarrow> Panic s
                   | Ok acc2 \<Rightarrow> billingLoop ext c (i + 1) par acc2))))"

text \<open>
  The two loops that fill \<^verbatim>\<open>ub.Users\<close>. Go ranges over the maps in an unspecified order; the
  association lists are taken in the order in which the keys were first added.
\<close>

definition buildUsers :: "costMap \<Rightarrow> minerMap \<Rightarrow> UserCost list" where
  "buildUsers usersMap minersMap =
     map (\<lambda>(userAddr, cost).
            \<lparr>User = userAddr, Cost = cost,
             Miners = map (\<lambda>(k1, v1). \<lparr>Miner = k1, Income = v1\<rparr>)
                          (case map_of minersMap userAddr of None \<Rightarrow> [] | Some miners \<Rightarrow> miners)\<rparr>)
         usersMap"

definition zeroAddress :: AccountAddress where
  "zeroAddress = replicate 32 0"

text \<open>
  \<^verbatim>\<open>Chain.billing\<close>: the pair is \<^verbatim>\<open>(ub, err)\<close>. The first line logs \<^verbatim>\<open>node.count\<close>, which
  panics on a nil node. An error inside the loop returns with \<^verbatim>\<open>ub\<close> still nil; an error
  of \<^verbatim>\<open>databaseID.AccountAddress()\<close> returns the update built so far together with the
  error.
\<close>

definition billing ::
  "collaborators \<Rightarrow> Chain \<Rightarrow> blockNode option
     \<Rightarrow> (UpdateBilling option \<times> error option) outcome" where
  "billing ext c nd =
     (case nd of
        None \<Rightarrow> Panics ''invalid memory address or nil pointer dereference''
      | Some n \<Rightarrow>
          (case billingLoop ext c 0 nd ([], []) of
             Err e \<Rightarrow> Returns (None, Some e)
           | Panic s \<Rightarrow> Panics s
           | Ok (usersMap, minersMap) \<Rightarrow>
               (let ub = \<lparr>ub_Receiver = zeroAddress, ub_Users = buildUsers usersMap minersMap,
                          ub_Nonce = 0, ub_Signature = None\<rparr>
                in case DatabaseAccountAddress ext (databaseID c) of
                     Inl e \<Rightarrow> Returns (Some ub, Some (External e))
                   | Inr a \<Rightarrow> Returns (Some (ub\<lparr>ub_Receiver := a\<rparr>), None))))"

text \<open>
  What the billing branch of \<^verbatim>\<open>processBlocks\<close> sends out: the request for the next account
  nonce, the signing of the update, the submission of the transaction.
\<close>

datatype event =
    EvNextAccountNonce AccountAddress
  | EvSign UpdateBilling
  | EvAddTx UpdateBilling

text \<open>
  The billing branch of \<^verbatim>\<open>processBlocks\<close> after the call of \<^verbatim>\<open>billing\<close> (chain.go 706 to
  729), given what \<^verbatim>\<open>billing\<close> returned: the error is logged, and so are the errors of the
  three calls that follow. The result is the list of calls made and, if the branch panics,
  the panic; \<^verbatim>\<open>ub.Nonce = nonceResp.Nonce\<close> dereferences \<^verbatim>\<open>ub\<close>.
\<close>

definition submitBilling ::
  "collaborators \<Rightarrow> Chain \<Rightarrow> UpdateBilling option \<times> error option \<Rightarrow> event list \<times> string option"
  where
  "submitBilling ext c r =
     (case r of
        (ub, err) \<Rightarrow>
          (let nonce = (case NextAccountNonce ext (addr c) of Inl e \<Rightarrow> 0 | Inr n \<Rightarrow> n)
           in case ub of
                None \<Rightarrow>
                  ([EvNextAccountNonce (addr c)],
                   Some ''invalid memory address or nil pointer dereference'')
              | Some u \<Rightarrow>
                  (let u1 = u\<lparr>ub_Nonce := nonce\<rparr>;
                       u2 = (case SignTx ext u1 of
                               Inl e \<Rightarrow> u1
                             | Inr sg \<Rightarrow> u1\<lparr>ub_Signature := Some sg\<rparr>)
                   in ([EvNextAccountNonce (addr c), EvSign u1, EvAddTx u2], None))))"

text \<open>
  The case \<^verbatim>\<open>block := <-c.blocks\<close> of \<^verbatim>\<open>processBlocks\<close>, on the chain and the stash: the new
  chain and stash, the calls sent out by the billing branch and the panic, if any.
  \<^verbatim>\<open>uint64(head.node.count)\<close> sign-extends the count; \<^verbatim>\<open>%\<close> by a zero update period panics.
\<close>

definition processBlock ::
  "collaborators \<Rightarrow> Block \<Rightarrow> Chain \<times> Block list
     \<Rightarrow> (Chain \<times> Block list) \<times> event list \<times> string option" where
  "processBlock ext block cs =
     (case cs of
        (c, stash) \<Rightarrow>
          (let height = getHeightFromTime (rt c) (Timestamp block)
           in if getNextTurn (rt c) - 1 <s height then ((c, stash @ [block]), [], None)
              else if height <s getNextTurn (rt c) - 1 then ((c, stash), [], None)
              else
                (case CheckAndPushNewBlock ext block c of
                   (Panics s, c1) \<Rightarrow> ((c1, stash), [], Some s)
                 | (Returns (Some err), c1) \<Rightarrow> ((c1, stash), [], None)
                 | (Returns None, c1) \<Rightarrow>
                     (case node (getHead (rt c1)) of
                        None \<Rightarrow>
                          ((c1, stash), [],
                           Some ''invalid memory address or nil pointer dereference'')
                      | Some hn \<Rightarrow>
                          (let currentCount = (scast (node_count hn) :: uint64)
                           in if updatePeriod c1 = 0
                              then ((c1, stash), [], Some ''integer divide by zero'')
                              else if currentCount mod updatePeriod c1 = 0
                              then
                                (case billing ext c1 (Some hn) of
                                   Panics s \<Rightarrow> ((c1, stash), [], Some s)
                                 | Returns r \<Rightarrow>
                                     (case submitBilling ext c1 r of
                                        (evs, p) \<Rightarrow> ((c1, stash), evs, p)))
                              else ((c1, stash), [], None))))))"

section \<open>The turn (chain.go, pruneBlockCache and runCurrentTurn)\<close>



















section \<open>Example values\<close>

text \<open>
  A committee of three peers \<open>P0\<close>, \<open>P1\<close>, \<open>P2\<close> with period 10 and query TTL 30; the
  local server is \<open>P0\<close>, and \<open>PX\<close> is a node outside the committee. A node id is a string
  of 64 characters. \<open>exHash x\<close> is the 32-byte hash whose bytes are all \<open>x\<close>.
\<close>

definition exHash :: "byte \<Rightarrow> Hash" where
  "exHash x = replicate 32 x"

definition exP0 :: NodeID where
  "exP0 = replicate 64 CHR ''0''"

definition exP1 :: NodeID where
  "exP1 = replicate 64 CHR ''1''"

definition exP2 :: NodeID where
  "exP2 = replicate 64 CHR ''2''"

definition exPX :: NodeID where
  "exPX = replicate 64 CHR ''9''"

definition exCollaborators :: collaborators where
  "exCollaborators =
     \<lparr>EncodeBlock = (\<lambda>b. Inr (BlockHash b)),
      EncodeAck = (\<lambda>a. Inr (ack_Hash a)),
      DecodeBlock = (\<lambda>v. Inl ''msgpack: invalid code''),
      bdbPutFault = (\<lambda>k v. None),
      bdbGetFault = (\<lambda>k. None),
      tdbPutFault = (\<lambda>k v. None),
      BlockVerify = (\<lambda>b. None),
      AckVerify = (\<lambda>a. None),
      ReplayBlock = (\<lambda>b. None),
      PubKeyHash = (\<lambda>k. Inr k),
      DatabaseAccountAddress = (\<lambda>d. Inr (exHash 0xDB)),
      NextAccountNonce = (\<lambda>a. Inr 1),
      SignTx = (\<lambda>ub. Inr [0x01]),
      AddTx = (\<lambda>ub. None)\<rparr>"

definition exGenesis :: Block where
  "exGenesis =
     \<lparr>Version = 0x01000000, Producer = exP0, GenesisHash = exHash 0, ParentHash = exHash 0,
      MerkleRoot = exHash 0, Timestamp = 0, BlockHash = exHash 0x47, Signee = [0x50],
      FailedReqs = [], QueryTxs = [], Acks = []\<rparr>"

definition exGenesisNode :: blockNode where
  "exGenesisNode = newBlockNode 0 exGenesis None"

definition exRuntime :: runtime where
  "exRuntime =
     \<lparr>chainInitTime = 0, period = 10, queryTTL = 30, blockCacheTTL = 30,
      peers = [exP0, exP1, exP2], server = exP0, nextTurn = 2,
      head = \<lparr>node = Some exGenesisNode, Head = exHash 0x47, Height = 0\<rparr>\<rparr>"

definition exChain :: Chain where
  "exChain =
     \<lparr>bdb = Map.empty, tdb = Map.empty, bi = [exHash 0x47 \<mapsto> exGenesisNode], ai = Map.empty,
      st = [], rt = exRuntime, blocks = [], heights = [], databaseID = ''db'',
      updatePeriod = 5, addr = exHash 0xAD\<rparr>"

text \<open>A block of height 1 on top of the genesis block, by the producer given.\<close>

definition exBlock :: "NodeID \<Rightarrow> Block" where
  "exBlock p =
     \<lparr>Version = 0x01000000, Producer = p, GenesisHash = exHash 0x47, ParentHash = exHash 0x47,
      MerkleRoot = exHash 0, Timestamp = 10, BlockHash = exHash 0x01, Signee = [0x51],
      FailedReqs = [], QueryTxs = [], Acks = []\<rparr>"

text \<open>The example chain after the local server has pushed its own block of height 1.\<close>

definition exChainPushed :: Chain where
  "exChainPushed = snd (pushBlock exCollaborators (exBlock exP0) exChain)"

text \<open>
  A response of miner \<open>A1\<close> to a request stamped at height 0, answered at height 1, and its
  acknowledgement; the example chain with that response awaiting its ack.
\<close>

definition exResponse :: SignedResponseHeader where
  "exResponse =
     \<lparr>resp_Hash = exHash 0x0A, resp_RequestTimestamp = 5, resp_Timestamp = 15,
      ResponseAccount = exHash 0xA1, RowCount = 10, AffectedRows = 0, resp_Signature = [0x55]\<rparr>"

definition exAck :: SignedAckHeader where
  "exAck = \<lparr>ack_Hash = exHash 0x0B, ack_Timestamp = 17, ack_Response = exResponse\<rparr>"

definition exChainAwaiting :: Chain where
  "exChainAwaiting =
     exChain\<lparr>ai := [0 \<mapsto> \<lparr>bk_responses = [exHash 0x0A \<mapsto> exResponse], bk_acks = Map.empty\<rparr>]\<rparr>"

text \<open>
  The example chain later on, with the head at height 100 (min-valid-height 70), and an ack
  whose request is stamped at height 90 and whose response is stamped at height 10.
\<close>

definition exChainLate :: Chain where
  "exChainLate =
     exChain\<lparr>rt := exRuntime\<lparr>nextTurn := 101,
        head := \<lparr>node = Some exGenesisNode, Head = exHash 0x47, Height = 100\<rparr>\<rparr>\<rparr>"

definition exAckSkewed :: SignedAckHeader where
  "exAckSkewed =
     \<lparr>ack_Hash = exHash 0x0C, ack_Timestamp = 907,
      ack_Response = exResponse\<lparr>resp_RequestTimestamp := 905, resp_Timestamp := 105\<rparr>\<rparr>"

text \<open>
  A window of two blocks on top of the genesis block. Block \<open>B1\<close> of height 1, by \<open>P1\<close> and
  signed with key \<open>51\<close>, holds a failed request of two queries of user \<open>U\<close> (key \<open>55\<close>).
  Block \<open>B2\<close> of height 2, by \<open>P2\<close> and signed with key \<open>52\<close>, holds a read query of \<open>U\<close>
  with 10 rows answered by the miner of address \<open>52\<close>. The example collaborators take the
  bytes of a key as its address.
\<close>

definition exBlockB1 :: Block where
  "exBlockB1 =
     (exBlock exP1)
       \<lparr>Signee := exHash 0x51,
        FailedReqs := [\<lparr>req_QueryType = WriteQuery, req_Signee = exHash 0x55,
                        req_Queries = [''insert 1'', ''insert 2'']\<rparr>]\<rparr>"

definition exBlockB2 :: Block where
  "exBlockB2 =
     \<lparr>Version = 0x01000000, Producer = exP2, GenesisHash = exHash 0x47, ParentHash = exHash 0x01,
      MerkleRoot = exHash 0, Timestamp = 20, BlockHash = exHash 0x02, Signee = exHash 0x52,
      FailedReqs = [],
      QueryTxs = [\<lparr>tx_Request = \<lparr>req_QueryType = ReadQuery, req_Signee = exHash 0x55,
                                  req_Queries = [''select 1'']\<rparr>,
                   tx_Response = \<lparr>resp_Hash = exHash 0x0D, resp_RequestTimestamp = 21,
                                   resp_Timestamp = 22, ResponseAccount = exHash 0x52,
                                   RowCount = 10, AffectedRows = 0, resp_Signature = [0x56]\<rparr>\<rparr>],
      Acks = []\<rparr>"

definition exNodeB1 :: blockNode where
  "exNodeB1 = newBlockNode 1 exBlockB1 (Some exGenesisNode)"

definition exWindowHead :: blockNode where
  "exWindowHead = newBlockNode 2 exBlockB2 (Some exNodeB1)"

text \<open>
  The example chain with a billing update after every block, collaborators for which the
  database id has no account address, collaborators for which no key has an address, and
  the billing update of the window that is block \<open>B1\<close> alone, with nonce 1.
\<close>

definition exChainBilling :: Chain where
  "exChainBilling = exChain\<lparr>updatePeriod := 1\<rparr>"

definition exBadDatabaseID :: collaborators where
  "exBadDatabaseID = exCollaborators\<lparr>DatabaseAccountAddress := (\<lambda>d. Inl ''invalid hash'')\<rparr>"

definition exBadKey :: collaborators where
  "exBadKey = exCollaborators\<lparr>PubKeyHash := (\<lambda>k. Inl ''invalid public key'')\<rparr>"

definition exUpdate :: UpdateBilling where
  "exUpdate =
     \<lparr>ub_Receiver = zeroAddress,
      ub_Users = [\<lparr>User = exHash 0x55, Cost = 2,
                   Miners = [\<lparr>Miner = exHash 0x51, Income = 2\<rparr>]\<rparr>],
      ub_Nonce = 1, ub_Signature = None\<rparr>"








section \<open>Properties of the storage keys\<close>

lemma Uint32_PutUint32: "Uint32 (PutUint32 v @ rest) = Some v"
proof -
  have "ucast (ucast v :: byte) OR push_bit 8 (ucast (ucast (drop_bit 8 v) :: byte))
        OR push_bit 16 (ucast (ucast (drop_bit 16 v) :: byte))
        OR push_bit 24 (ucast (ucast (drop_bit 24 v) :: byte)) = v"
  proof (rule bit_word_eqI)
    fix n :: nat
    assume "n < LENGTH(32)"
    then have n: "n < 32" by simp
    have c: "n < 8 \<or> (8 \<le> n \<and> n < 16) \<or> (16 \<le> n \<and> n < 24) \<or> 24 \<le> n"
      by arith
    from c n
    show "bit (ucast (ucast v :: byte) OR push_bit 8 (ucast (ucast (drop_bit 8 v) :: byte))
        OR push_bit 16 (ucast (ucast (drop_bit 16 v) :: byte))
        OR push_bit 24 (ucast (ucast (drop_bit 24 v) :: byte)) :: 32 word) n = bit v n"
      by (auto simp add: bit_simps)
  qed
  then show ?thesis by (simp add: PutUint32_def)
qed

text \<open>
  Claim C9. For every \<^verbatim>\<open>int32\<close> height \<open>h\<close>, every four-byte tag and all trailing hash
  bytes, decoding the key made of the tag, \<^verbatim>\<open>heightToKey(h)\<close> and the hash gives \<open>h\<close> back;
  and every key shorter than eight bytes decodes to \<open>-1\<close>. In both cases the decoder
  returns, it does not panic.
\<close>

theorem keyWithSymbolToHeight_roundtrip:
  "(length tag = 4 \<longrightarrow> keyWithSymbolToHeight (tag @ heightToKey h @ hsh) = Some h) \<and>
   (length k < 8 \<longrightarrow> keyWithSymbolToHeight k = Some (- 1))"
proof -
  have len: "length (heightToKey h) = 4"
    by (simp add: heightToKey_def PutUint32_def)
  have "keyWithSymbolToHeight (tag @ heightToKey h @ hsh) = Some h" if "length tag = 4"
    using that len by (simp add: keyWithSymbolToHeight_def heightToKey_def Uint32_PutUint32)
  then show ?thesis by (simp add: keyWithSymbolToHeight_def)
qed

theorem keyWithSymbolToHeight_roundtrip_witness:
  "length metaBlockIndex = 4 \<and>
   keyWithSymbolToHeight (metaBlockIndex @ heightToKey 7 @ [1, 2, 3]) = Some 7 \<and>
   length [1, 2, 3 :: byte] < 8 \<and>
   keyWithSymbolToHeight [1, 2, 3] = Some (- 1)"
  using keyWithSymbolToHeight_roundtrip [of metaBlockIndex 7 "[1, 2, 3]" "[1, 2, 3]"]
  by (simp add: metaBlockIndex_def)

section \<open>Helper lemmas\<close>

lemmas ex_defs = exChain_def exRuntime_def exBlock_def exCollaborators_def exGenesis_def
  exGenesisNode_def exHash_def exP0_def exP1_def exP2_def exPX_def

lemmas rt_defs = getHead_def setHead_def getPeers_def getNextTurn_def getHeightFromTime_def
  getMinValidHeight_def queryTimeIsExpired_def

lemma findFrom_absent: "key \<notin> set ss \<Longrightarrow> findFrom i ss key = (0, False)"
  by (induction ss arbitrary: i) auto

lemma findFrom_present: "key \<in> set ss \<Longrightarrow> snd (findFrom i ss key)"
  by (induction ss arbitrary: i) auto

lemma snd_Find: "snd (Find ss key) \<longleftrightarrow> key \<in> set ss"
proof (cases "key \<in> set ss")
  case True
  then show ?thesis by (simp add: Find_def findFrom_present)
next
  case False
  then show ?thesis by (simp add: Find_def findFrom_absent)
qed

lemma findFrom_index:
  "key \<in> set ss \<Longrightarrow>
     \<exists>i < length ss. ss ! i = key \<and> key \<notin> set (take i ss) \<and>
        findFrom j ss key = (word_of_nat (j + i), True)"
proof (induction ss arbitrary: j)
  case Nil
  then show ?case by simp
next
  case (Cons s ss)
  show ?case
  proof (cases "key = s")
    case True
    then show ?thesis by (intro exI [of _ 0]) simp
  next
    case False
    with Cons.prems have "key \<in> set ss" by simp
    from Cons.IH [OF this, of "Suc j"] obtain i where
      i: "i < length ss" "ss ! i = key" "key \<notin> set (take i ss)"
         "findFrom (Suc j) ss key = (word_of_nat (Suc j + i), True)"
      by blast
    with False show ?thesis by (intro exI [of _ "Suc i"]) simp
  qed
qed

text \<open>
  \<^verbatim>\<open>Find\<close> gives the position of the first occurrence of the key in the peer list.
\<close>

lemma Find_index:
  "key \<in> set ss \<Longrightarrow>
     \<exists>i < length ss. ss ! i = key \<and> key \<notin> set (take i ss) \<and>
        Find ss key = (word_of_nat i, True)"
  using findFrom_index [of key ss 0] by (simp add: Find_def)

lemma sint_int32_of_int:
  assumes "- (2 ^ 31) \<le> k" and "k < 2 ^ 31"
  shows "sint (word_of_int k :: int32) = k"
  using assms by (simp add: signed_of_int signed_take_bit_int_eq_self)

lemma smod_nonneg:
  assumes "0 \<le> k" and "0 < l"
  shows "k smod l = k mod (l :: int)"
  using assms by (cases "k = 0") (simp_all add: signed_modulo_int_def)

text \<open>
  From next-turn 1 on, and with fewer than \<open>2^31\<close> peers, the remainder that the code
  computes is the mathematical \<open>(next-turn - 1) mod |peers|\<close>.
\<close>

lemma nextProducer_mod:
  assumes "0 < length (peers r)" and "length (peers r) < 2 ^ 31" and "1 \<le> sint (nextTurn r)"
  shows "sint (nextProducer r) = (sint (nextTurn r) - 1) mod int (length (peers r))"
proof -
  let ?n = "int (length (peers r))"
  let ?total = "word_of_nat (length (peers r)) :: int32"
  have n: "0 < ?n" "?n < 2 ^ 31" using assms by simp_all
  have total: "sint ?total = ?n"
    using n sint_int32_of_int [of ?n] by simp
  have pos: "0 <s ?total"
    using n total by (simp add: word_sless_alt)
  have lo: "- (2 ^ 31) \<le> sint (nextTurn r) - 1" using assms(3) by simp
  have hi: "sint (nextTurn r) - 1 < 2 ^ 31" using sint_lt [of "nextTurn r"] by simp
  have pred: "sint (nextTurn r - 1) = sint (nextTurn r) - 1"
    using lo hi by (simp add: sint_word_ariths signed_take_bit_int_eq_self)
  have m: "0 \<le> (sint (nextTurn r) - 1) mod ?n" "(sint (nextTurn r) - 1) mod ?n < ?n"
    using n by simp_all
  have sm: "(sint (nextTurn r) - 1) smod ?n = (sint (nextTurn r) - 1) mod ?n"
    using assms(3) n smod_nonneg [of "sint (nextTurn r) - 1" ?n] by simp
  have wb: "sint (word_of_int ((sint (nextTurn r) - 1) mod ?n) :: int32)
      = (sint (nextTurn r) - 1) mod ?n"
    using m n by (intro sint_int32_of_int) linarith+
  have "sint (rem32 (nextTurn r - 1) ?total) = (sint (nextTurn r) - 1) mod ?n"
    unfolding rem32_def pred total sm by (rule wb)
  then show ?thesis
    using pos by (simp add: nextProducer_def getPeers_def getNextTurn_def Let_def)
qed

lemma rt_addResponses: "rt (addResponses vs c) = rt c"
  by (induction vs arbitrary: c) (auto simp: AddResponse_def split: sum.splits)

lemma rt_removeAcks: "rt (removeAcks vs c) = rt c"
  by (induction vs arbitrary: c) (auto simp: remove_def split: sum.splits)

text \<open>After a successful \<^verbatim>\<open>pushBlock\<close> the head is the pushed block.\<close>

lemma pushBlock_head:
  assumes "pushBlock ext b c0 = (Returns None, c)"
  shows "Head (getHead (rt c)) = BlockHash b"
    and "Height (getHead (rt c)) = getHeightFromTime (rt c) (Timestamp b)"
  using assms
  by (auto simp: pushBlock_def Let_def bdb_Put_def rt_addResponses rt_removeAcks setHead_def
      getHead_def newBlockNode_def getHeightFromTime_def
      split: sum.splits option.splits if_splits)

section \<open>CheckAndPushNewBlock and pushBlock\<close>

text \<open>
  Claim C1, as amended. The claim as written fails where the block is the current head
  itself: the first test of \<^verbatim>\<open>CheckAndPushNewBlock\<close> (same height and same hash as the
  head, "maybe already set by FetchBlock") returns nil before the parent hash is looked at,
  and the parent of the head block is not the head. For every block whose \<^verbatim>\<open>ParentHash\<close>
  differs from the head hash and which is not the current head (its height or its hash
  differs from the head's), the call returns \<^verbatim>\<open>ErrInvalidBlock\<close> and the chain (head, block
  index, ack index, stores and SQL state) is unchanged.
\<close>

theorem CheckAndPushNewBlock_parent_mismatch:
  assumes "ParentHash b \<noteq> Head (getHead (rt c))"
      and "\<not> (Height (getHead (rt c)) = getHeightFromTime (rt c) (Timestamp b) \<and>
              Head (getHead (rt c)) = BlockHash b)"
  shows "CheckAndPushNewBlock ext b c = (Returns (Some ErrInvalidBlock), c)"
  using assms by (auto simp add: CheckAndPushNewBlock_def Let_def)

theorem CheckAndPushNewBlock_parent_mismatch_witness:
  "ParentHash ((exBlock exP1)\<lparr>ParentHash := exHash 0x99\<rparr>) \<noteq> Head (getHead (rt exChain)) \<and>
   \<not> (Height (getHead (rt exChain))
        = getHeightFromTime (rt exChain) (Timestamp ((exBlock exP1)\<lparr>ParentHash := exHash 0x99\<rparr>)) \<and>
      Head (getHead (rt exChain)) = BlockHash ((exBlock exP1)\<lparr>ParentHash := exHash 0x99\<rparr>)) \<and>
   CheckAndPushNewBlock exCollaborators ((exBlock exP1)\<lparr>ParentHash := exHash 0x99\<rparr>) exChain
     = (Returns (Some ErrInvalidBlock), exChain)"
proof -
  have h: "ParentHash ((exBlock exP1)\<lparr>ParentHash := exHash 0x99\<rparr>) \<noteq> Head (getHead (rt exChain))"
    "\<not> (Height (getHead (rt exChain))
        = getHeightFromTime (rt exChain) (Timestamp ((exBlock exP1)\<lparr>ParentHash := exHash 0x99\<rparr>)) \<and>
      Head (getHead (rt exChain)) = BlockHash ((exBlock exP1)\<lparr>ParentHash := exHash 0x99\<rparr>))"
    by (simp_all add: ex_defs rt_defs)
  show ?thesis
    using CheckAndPushNewBlock_parent_mismatch [OF h, of exCollaborators] h by simp
qed

text \<open>
  The claim C1 as written is false: the genesis block, delivered again to the chain whose
  head it is, has a \<^verbatim>\<open>ParentHash\<close> that differs from the head hash, and the call returns
  nil, not \<^verbatim>\<open>ErrInvalidBlock\<close>.
\<close>

theorem CheckAndPushNewBlock_parent_mismatch_counterexample:
  "ParentHash exGenesis \<noteq> Head (getHead (rt exChain)) \<and>
   CheckAndPushNewBlock exCollaborators exGenesis exChain = (Returns None, exChain) \<and>
   fst (CheckAndPushNewBlock exCollaborators exGenesis exChain) \<noteq> Returns (Some ErrInvalidBlock)"
  by (simp add: CheckAndPushNewBlock_def Let_def ex_defs rt_defs)

text \<open>
  Claim C5. If the put into the block store fails, \<^verbatim>\<open>pushBlock\<close> returns that error
  (wrapped) and the chain is the one it was given: head state, block index and ack index
  are unchanged, nothing in memory was touched before the write.
\<close>

theorem pushBlock_store_error:
  assumes "EncodeBlock ext b = Inr enc"
      and "bdbPutFault ext (blockKey c b) enc = Some e"
  shows "pushBlock ext b c = (Returns (Some (Wrapf ''put %s'' (External e))), c)"
  using assms by (simp add: pushBlock_def bdb_Put_def blockKey_def Let_def)

theorem pushBlock_store_error_witness:
  "EncodeBlock (exCollaborators\<lparr>bdbPutFault := (\<lambda>k v. Some ''leveldb: closed'')\<rparr>) (exBlock exP0)
     = Inr (exHash 0x01) \<and>
   bdbPutFault (exCollaborators\<lparr>bdbPutFault := (\<lambda>k v. Some ''leveldb: closed'')\<rparr>)
     (blockKey exChain (exBlock exP0)) (exHash 0x01) = Some ''leveldb: closed'' \<and>
   pushBlock (exCollaborators\<lparr>bdbPutFault := (\<lambda>k v. Some ''leveldb: closed'')\<rparr>)
     (exBlock exP0) exChain
     = (Returns (Some (Wrapf ''put %s'' (External ''leveldb: closed''))), exChain)"
  using pushBlock_store_error
    [of "exCollaborators\<lparr>bdbPutFault := (\<lambda>k v. Some ''leveldb: closed'')\<rparr>" "exBlock exP0"
        "exHash 0x01" exChain "''leveldb: closed''"]
  by (simp add: exCollaborators_def exBlock_def)

text \<open>
  Claim C6. \<^verbatim>\<open>CheckAndPushNewBlock\<close> applied to a block that is already the current head
  (the head has the block's height and hash) returns nil and the chain is unchanged. In
  particular this holds for a block right after \<^verbatim>\<open>pushBlock\<close> has pushed it, as for a
  locally produced block that is advised back to the node.
\<close>

theorem CheckAndPushNewBlock_head_noop:
  "(Height (getHead (rt c)) = getHeightFromTime (rt c) (Timestamp b) \<and>
    Head (getHead (rt c)) = BlockHash b
      \<longrightarrow> CheckAndPushNewBlock ext b c = (Returns None, c)) \<and>
   (pushBlock ext0 b c0 = (Returns None, c) \<longrightarrow> CheckAndPushNewBlock ext b c = (Returns None, c))"
proof -
  have a: "CheckAndPushNewBlock ext b c = (Returns None, c)"
    if "Height (getHead (rt c)) = getHeightFromTime (rt c) (Timestamp b)"
      and "Head (getHead (rt c)) = BlockHash b"
    using that by (simp add: CheckAndPushNewBlock_def Let_def)
  show ?thesis using a pushBlock_head by blast
qed

theorem CheckAndPushNewBlock_head_noop_witness:
  "pushBlock exCollaborators (exBlock exP0) exChain = (Returns None, exChainPushed) \<and>
   Height (getHead (rt exChainPushed))
     = getHeightFromTime (rt exChainPushed) (Timestamp (exBlock exP0)) \<and>
   Head (getHead (rt exChainPushed)) = BlockHash (exBlock exP0) \<and>
   Head (getHead (rt exChainPushed)) \<noteq> Head (getHead (rt exChain)) \<and>
   CheckAndPushNewBlock exCollaborators (exBlock exP0) exChainPushed = (Returns None, exChainPushed)"
proof -
  have p: "pushBlock exCollaborators (exBlock exP0) exChain = (Returns None, exChainPushed)"
    by (simp add: exChainPushed_def pushBlock_def bdb_Put_def Let_def exCollaborators_def
        exBlock_def exP0_def)
  have h: "Height (getHead (rt exChainPushed))
       = getHeightFromTime (rt exChainPushed) (Timestamp (exBlock exP0))"
    "Head (getHead (rt exChainPushed)) = BlockHash (exBlock exP0)"
    "Head (getHead (rt exChainPushed)) \<noteq> Head (getHead (rt exChain))"
    by (simp_all add: exChainPushed_def pushBlock_def bdb_Put_def Let_def newBlockNode_def
        ex_defs rt_defs)
  show ?thesis
    using CheckAndPushNewBlock_head_noop
      [of exChainPushed "exBlock exP0" exCollaborators exCollaborators exChain] p h
    by simp
qed

text \<open>
  Claim C7. For a block that passes the parent-hash and signature checks and whose
  producer is not the local server: a producer that is not in the peer list is rejected
  with \<^verbatim>\<open>ErrUnknownProducer\<close>; a producer whose index in the peer list differs from the
  expected slot \<^verbatim>\<open>(nextTurn - 1) % total\<close> is rejected with \<^verbatim>\<open>ErrInvalidProducer\<close>; in both
  cases the chain is unchanged, so the block was neither replayed into the SQL state nor
  pushed. From next-turn 1 on the expected slot is \<open>(next-turn - 1) mod |peers|\<close>, and a
  producer whose position in the peer list differs from it is rejected.
\<close>

theorem CheckAndPushNewBlock_producer_checks:
  assumes "\<not> (Height (getHead (rt c)) = getHeightFromTime (rt c) (Timestamp b) \<and>
              Head (getHead (rt c)) = BlockHash b)"
      and "ParentHash b = Head (getHead (rt c))"
      and "BlockVerify ext b = None"
      and "Producer b \<noteq> server (rt c)"
  shows "(Producer b \<notin> set (getPeers (rt c))
            \<longrightarrow> CheckAndPushNewBlock ext b c = (Returns (Some ErrUnknownProducer), c)) \<and>
         (Producer b \<in> set (getPeers (rt c)) \<and>
          fst (Find (getPeers (rt c)) (Producer b)) \<noteq> nextProducer (rt c)
            \<longrightarrow> CheckAndPushNewBlock ext b c = (Returns (Some ErrInvalidProducer), c)) \<and>
         (0 < length (peers (rt c)) \<and> length (peers (rt c)) < 2 ^ 31 \<and> 1 \<le> sint (nextTurn (rt c))
            \<longrightarrow> sint (nextProducer (rt c))
                = (sint (nextTurn (rt c)) - 1) mod int (length (peers (rt c)))) \<and>
         (Producer b \<in> set (getPeers (rt c)) \<and>
          length (peers (rt c)) < 2 ^ 31 \<and> 1 \<le> sint (nextTurn (rt c)) \<and>
          sint (fst (Find (getPeers (rt c)) (Producer b)))
            \<noteq> (sint (nextTurn (rt c)) - 1) mod int (length (peers (rt c)))
            \<longrightarrow> CheckAndPushNewBlock ext b c = (Returns (Some ErrInvalidProducer), c))"
proof -
  obtain index found where f: "Find (getPeers (rt c)) (Producer b) = (index, found)"
    by (cases "Find (getPeers (rt c)) (Producer b)")
  have found: "found \<longleftrightarrow> Producer b \<in> set (getPeers (rt c))"
    using snd_Find [of "getPeers (rt c)" "Producer b"] f by simp
  have unknown: "CheckAndPushNewBlock ext b c = (Returns (Some ErrUnknownProducer), c)"
    if "Producer b \<notin> set (getPeers (rt c))"
    using that assms f found by (auto simp add: CheckAndPushNewBlock_def Let_def)
  have invalid: "CheckAndPushNewBlock ext b c = (Returns (Some ErrInvalidProducer), c)"
    if "Producer b \<in> set (getPeers (rt c))"
      and "fst (Find (getPeers (rt c)) (Producer b)) \<noteq> nextProducer (rt c)"
    using that assms f found by (auto simp add: CheckAndPushNewBlock_def Let_def)
  have slot: "sint (nextProducer (rt c))
      = (sint (nextTurn (rt c)) - 1) mod int (length (peers (rt c)))"
    if "0 < length (peers (rt c))" "length (peers (rt c)) < 2 ^ 31" "1 \<le> sint (nextTurn (rt c))"
    using that by (rule nextProducer_mod)
  have invalid': "CheckAndPushNewBlock ext b c = (Returns (Some ErrInvalidProducer), c)"
    if in_peers: "Producer b \<in> set (getPeers (rt c))"
      and len: "length (peers (rt c)) < 2 ^ 31" and nt: "1 \<le> sint (nextTurn (rt c))"
      and ne: "sint (fst (Find (getPeers (rt c)) (Producer b)))
            \<noteq> (sint (nextTurn (rt c)) - 1) mod int (length (peers (rt c)))"
  proof -
    from in_peers have "0 < length (peers (rt c))" by (auto simp: getPeers_def)
    from slot [OF this len nt] ne
    have "fst (Find (getPeers (rt c)) (Producer b)) \<noteq> nextProducer (rt c)" by auto
    with in_peers show ?thesis by (rule invalid)
  qed
  show ?thesis using unknown invalid slot invalid' by blast
qed

theorem CheckAndPushNewBlock_producer_checks_witness:
  "\<not> (Height (getHead (rt exChain)) = getHeightFromTime (rt exChain) (Timestamp (exBlock exPX)) \<and>
       Head (getHead (rt exChain)) = BlockHash (exBlock exPX)) \<and>
   ParentHash (exBlock exPX) = Head (getHead (rt exChain)) \<and>
   BlockVerify exCollaborators (exBlock exPX) = None \<and>
   Producer (exBlock exPX) \<noteq> server (rt exChain) \<and>
   Producer (exBlock exPX) \<notin> set (getPeers (rt exChain)) \<and>
   CheckAndPushNewBlock exCollaborators (exBlock exPX) exChain = (Returns (Some ErrUnknownProducer), exChain) \<and>
   Producer (exBlock exP2) \<in> set (getPeers (rt exChain)) \<and>
   fst (Find (getPeers (rt exChain)) (Producer (exBlock exP2))) \<noteq> nextProducer (rt exChain) \<and>
   CheckAndPushNewBlock exCollaborators (exBlock exP2) exChain = (Returns (Some ErrInvalidProducer), exChain) \<and>
   sint (nextProducer (rt exChain)) = (2 - 1) mod 3 \<and>
   sint (fst (Find (getPeers (rt exChain)) (Producer (exBlock exP2))))
     \<noteq> (sint (nextTurn (rt exChain)) - 1) mod int (length (peers (rt exChain)))"
proof -
  have np: "nextProducer (rt exChain) = 1"
    by (simp add: nextProducer_def rem32_def ex_defs rt_defs word_sless_alt signed_modulo_int_def)
  have h: "\<not> (Height (getHead (rt exChain)) = getHeightFromTime (rt exChain) (Timestamp (exBlock p)) \<and>
       Head (getHead (rt exChain)) = BlockHash (exBlock p))"
    "ParentHash (exBlock p) = Head (getHead (rt exChain))"
    "BlockVerify exCollaborators (exBlock p) = None" for p
    by (simp_all add: ex_defs rt_defs)
  have f: "fst (Find (getPeers (rt exChain)) (Producer (exBlock exP2))) = 2"
    by (simp add: Find_def ex_defs rt_defs)
  have m: "(sint (nextTurn (rt exChain)) - 1) mod int (length (peers (rt exChain))) = 1"
    by (simp add: ex_defs)
  have s: "Producer (exBlock exPX) \<noteq> server (rt exChain)"
    "Producer (exBlock exP2) \<noteq> server (rt exChain)"
    "Producer (exBlock exPX) \<notin> set (getPeers (rt exChain))"
    "Producer (exBlock exP2) \<in> set (getPeers (rt exChain))"
    by (simp_all add: ex_defs rt_defs)
  show ?thesis
    using CheckAndPushNewBlock_producer_checks [OF h(1) [of exPX] h(2) h(3) s(1)]
      CheckAndPushNewBlock_producer_checks [OF h(1) [of exP2] h(2) h(3) s(2)]
      h s f np m
    by simp
qed

section \<open>VerifyAndPushAckedQuery and pushAckedQuery\<close>

lemma ai_register_isRegistered:
  "ai_register h ack idx = Inr idx' \<Longrightarrow> isRegistered idx' h ack"
  by (auto simp: ai_register_def isRegistered_def split: option.splits if_splits)

text \<open>
  Claim C4, as amended. The expiry check of \<^verbatim>\<open>VerifyAndPushAckedQuery\<close> is made on the
  ack's response timestamp (\<^verbatim>\<open>ack.GetResponseTimestamp()\<close>), not on its request timestamp:
  the call returns the \<^verbatim>\<open>ErrQueryExpired\<close> of that check exactly when the height derived from
  the response timestamp is below min-valid-height (head height minus the query TTL), and
  then the chain is unchanged. An ack whose response height is within the window passes the
  check.
\<close>

theorem VerifyAndPushAckedQuery_expired_iff:
  "(fst (VerifyAndPushAckedQuery ext ack c) = Some expiredError
      \<longleftrightarrow> getHeightFromTime (rt c) (GetResponseTimestamp ack) <s getMinValidHeight (rt c)) \<and>
   (getHeightFromTime (rt c) (GetResponseTimestamp ack) <s getMinValidHeight (rt c)
      \<longrightarrow> snd (VerifyAndPushAckedQuery ext ack c) = c)"
  by (auto simp: VerifyAndPushAckedQuery_def pushAckedQuery_def queryTimeIsExpired_def
      expiredError_def register_def tdb_Put_def Let_def split: option.splits sum.splits)

theorem VerifyAndPushAckedQuery_expired_iff_witness:
  "getHeightFromTime (rt exChainLate) (GetResponseTimestamp exAckSkewed)
     <s getMinValidHeight (rt exChainLate) \<and>
   fst (VerifyAndPushAckedQuery exCollaborators exAckSkewed exChainLate) = Some expiredError \<and>
   snd (VerifyAndPushAckedQuery exCollaborators exAckSkewed exChainLate) = exChainLate \<and>
   \<not> getHeightFromTime (rt exChainAwaiting) (GetResponseTimestamp exAck)
       <s getMinValidHeight (rt exChainAwaiting) \<and>
   fst (VerifyAndPushAckedQuery exCollaborators exAck exChainAwaiting) \<noteq> Some expiredError"
proof -
  have a: "getHeightFromTime (rt exChainLate) (GetResponseTimestamp exAckSkewed)
     <s getMinValidHeight (rt exChainLate)"
    by (simp add: exChainLate_def exAckSkewed_def exResponse_def GetResponseTimestamp_def
        ex_defs rt_defs word_sless_alt)
  have b: "\<not> getHeightFromTime (rt exChainAwaiting) (GetResponseTimestamp exAck)
       <s getMinValidHeight (rt exChainAwaiting)"
    by (simp add: exChainAwaiting_def exAck_def exResponse_def GetResponseTimestamp_def
        ex_defs rt_defs word_sless_alt)
  show ?thesis
    using VerifyAndPushAckedQuery_expired_iff [of exCollaborators exAckSkewed exChainLate]
      VerifyAndPushAckedQuery_expired_iff [of exCollaborators exAck exChainAwaiting] a b
    by simp
qed

text \<open>
  The claim C4 as written is false. With the head at height 100 and a TTL of 30 turns
  (min-valid-height 70), an ack whose request is stamped at height 90, inside the window,
  and whose response is stamped at height 10 is rejected with \<^verbatim>\<open>ErrQueryExpired\<close>.
\<close>

theorem VerifyAndPushAckedQuery_expired_counterexample:
  "\<not> getHeightFromTime (rt exChainLate) (GetRequestTimestamp exAckSkewed)
        <s getMinValidHeight (rt exChainLate) \<and>
   VerifyAndPushAckedQuery exCollaborators exAckSkewed exChainLate
     = (Some (Wrapf ''Verify ack query, min valid height %d, ack height %d'' ErrQueryExpired),
        exChainLate)"
  by (simp add: VerifyAndPushAckedQuery_def exChainLate_def exAckSkewed_def exResponse_def
      GetRequestTimestamp_def GetResponseTimestamp_def ex_defs rt_defs word_sless_alt)

text \<open>
  Claim C10. \<^verbatim>\<open>pushAckedQuery\<close> registers the ack in the ack index, in the bucket of the
  height of the ack's request timestamp, before it writes the ack to the query store under
  the key of the height of the ack's response timestamp. So when the ack passes the expiry
  check and the verification, is encoded and registered, and the put fails, then
  \<^verbatim>\<open>VerifyAndPushAckedQuery\<close> returns the (wrapped) store error and the chain it leaves has
  the ack registered: the registration is not undone. When the put succeeds the ack is in
  the store under that key.
\<close>

theorem pushAckedQuery_not_atomic:
  assumes "\<not> queryTimeIsExpired (rt c) (GetResponseTimestamp ack)"
      and "AckVerify ext ack = None"
      and "EncodeAck ext ack = Inr enc"
      and "ai_register (getHeightFromTime (rt c) (GetRequestTimestamp ack)) ack (ai c) = Inr idx"
  shows "(tdbPutFault ext (ackKey c ack) enc = Some e \<longrightarrow>
            VerifyAndPushAckedQuery ext ack c
              = (Some (Wrapf ''put ack %d %s'' (External e)), c\<lparr>ai := idx\<rparr>) \<and>
            isRegistered idx (getHeightFromTime (rt c) (GetRequestTimestamp ack)) ack) \<and>
         (tdbPutFault ext (ackKey c ack) enc = None \<longrightarrow>
            VerifyAndPushAckedQuery ext ack c
              = (None, c\<lparr>ai := idx, tdb := (tdb c)(ackKey c ack \<mapsto> enc)\<rparr>))"
  using assms ai_register_isRegistered [OF assms(4)]
  by (simp add: VerifyAndPushAckedQuery_def pushAckedQuery_def register_def tdb_Put_def
      ackKey_def Let_def)


theorem pushAckedQuery_not_atomic_witness:
  "\<not> queryTimeIsExpired (rt exChainAwaiting) (GetResponseTimestamp exAck) \<and>
   AckVerify exCollaborators exAck = None \<and>
   EncodeAck exCollaborators exAck = Inr (exHash 0x0B) \<and>
   ai_register (getHeightFromTime (rt exChainAwaiting) (GetRequestTimestamp exAck)) exAck
     (ai exChainAwaiting)
     = Inr [0 \<mapsto> \<lparr>bk_responses = [exHash 0x0A \<mapsto> exResponse],
                   bk_acks = [exHash 0x0B \<mapsto> exAck]\<rparr>] \<and>
   VerifyAndPushAckedQuery (exCollaborators\<lparr>tdbPutFault := (\<lambda>k v. Some ''leveldb: closed'')\<rparr>)
     exAck exChainAwaiting
     = (Some (Wrapf ''put ack %d %s'' (External ''leveldb: closed'')),
        exChainAwaiting\<lparr>ai := [0 \<mapsto> \<lparr>bk_responses = [exHash 0x0A \<mapsto> exResponse],
                                        bk_acks = [exHash 0x0B \<mapsto> exAck]\<rparr>]\<rparr>) \<and>
   isRegistered [0 \<mapsto> \<lparr>bk_responses = [exHash 0x0A \<mapsto> exResponse],
                        bk_acks = [exHash 0x0B \<mapsto> exAck]\<rparr>] 0 exAck \<and>
   fst (VerifyAndPushAckedQuery exCollaborators exAck exChainAwaiting) = None \<and>
   tdb (snd (VerifyAndPushAckedQuery exCollaborators exAck exChainAwaiting))
     (metaAckIndex @ heightToKey 1 @ exHash 0x0B) = Some (exHash 0x0B)"
proof -
  let ?idx = "[0 \<mapsto> \<lparr>bk_responses = [exHash 0x0A \<mapsto> exResponse],
                       bk_acks = [exHash 0x0B \<mapsto> exAck]\<rparr>]"
  have h0: "getHeightFromTime (rt exChainAwaiting) (GetRequestTimestamp exAck) = 0"
    "getHeightFromTime (rt exChainAwaiting) (GetResponseTimestamp exAck) = 1"
    by (simp_all add: exChainAwaiting_def exAck_def exResponse_def GetRequestTimestamp_def
        GetResponseTimestamp_def ex_defs rt_defs)
  have h1: "\<not> queryTimeIsExpired (rt exChainAwaiting) (GetResponseTimestamp exAck)"
    unfolding queryTimeIsExpired_def h0
    by (simp add: exChainAwaiting_def ex_defs getMinValidHeight_def getHead_def word_sless_alt)
  have h2: "AckVerify ext exAck = None" "EncodeAck ext exAck = Inr (exHash 0x0B)"
    if "AckVerify ext = AckVerify exCollaborators" "EncodeAck ext = EncodeAck exCollaborators"
    for ext
    using that by (simp_all add: exCollaborators_def exAck_def)
  have h3: "ai_register (getHeightFromTime (rt exChainAwaiting) (GetRequestTimestamp exAck))
      exAck (ai exChainAwaiting) = Inr ?idx"
    unfolding h0
    by (simp add: ai_register_def exChainAwaiting_def exAck_def exChain_def exResponse_def)
  have k: "ackKey exChainAwaiting exAck = metaAckIndex @ heightToKey 1 @ exHash 0x0B"
    unfolding ackKey_def h0 by (simp add: exAck_def)
  have f: "tdbPutFault (exCollaborators\<lparr>tdbPutFault := (\<lambda>k v. Some ''leveldb: closed'')\<rparr>)
      (ackKey exChainAwaiting exAck) (exHash 0x0B) = Some ''leveldb: closed''"
    "tdbPutFault exCollaborators (ackKey exChainAwaiting exAck) (exHash 0x0B) = None"
    by (simp_all add: exCollaborators_def)
  show ?thesis
    using pushAckedQuery_not_atomic
        [OF h1 h2(1) h2(2) h3,
         of "exCollaborators\<lparr>tdbPutFault := (\<lambda>k v. Some ''leveldb: closed'')\<rparr>"
            "''leveldb: closed''"]
      pushAckedQuery_not_atomic [OF h1 h2(1) h2(2) h3, of exCollaborators]
      h1 h2 [of exCollaborators] h3 f k h0
    by simp
qed

section \<open>Billing\<close>

lemma exHash_eq [simp]: "exHash a = exHash b \<longleftrightarrow> a = b"
  by (simp add: exHash_def)

lemmas ex_folded = exChain_def exRuntime_def exBlock_def exCollaborators_def exGenesis_def
  exGenesisNode_def exP0_def exP1_def exP2_def exPX_def

text \<open>
  Whatever \<^verbatim>\<open>billing\<close> returned, its error included, the billing branch requests the next
  account nonce first.
\<close>

lemma submitBilling_requests_nonce:
  "\<exists>evs. fst (submitBilling ext c r) = EvNextAccountNonce (addr c) # evs"
  by (cases r) (auto simp: submitBilling_def Let_def split: option.splits)

text \<open>
  Claim C3 fails on the code. In the loop over the failed requests (chain.go 1027) the
  user's map of miners is replaced by a new empty map whenever it has no entry for the
  block's signer, which discards the incomes of the other miners of that user; the loop
  over the query transactions (chain.go 1006) makes a new map only when the user has none.
  On the window of \<open>B2\<close> and \<open>B1\<close>: after \<open>B2\<close> the user owes 10 to miner \<open>52\<close>; after \<open>B1\<close>
  the user's cost is 12 and the only income left is 2 for miner \<open>51\<close>.
\<close>

theorem billing_discards_miner_credit:
  "billingLoop exCollaborators (exChain\<lparr>updatePeriod := 1\<rparr>) 0 (Some exWindowHead) ([], [])
     = Ok ([(exHash 0x55, 10)], [(exHash 0x55, [(exHash 0x52, 10)])]) \<and>
   billingLoop exCollaborators (exChain\<lparr>updatePeriod := 2\<rparr>) 0 (Some exWindowHead) ([], [])
     = Ok ([(exHash 0x55, 12)], [(exHash 0x55, [(exHash 0x51, 2)])]) \<and>
   billing exCollaborators (exChain\<lparr>updatePeriod := 2\<rparr>) (Some exWindowHead)
     = Returns (Some \<lparr>ub_Receiver = exHash 0xDB,
                       ub_Users = [\<lparr>User = exHash 0x55, Cost = 12,
                                    Miners = [\<lparr>Miner = exHash 0x51, Income = 2\<rparr>]\<rparr>],
                       ub_Nonce = 0, ub_Signature = None\<rparr>, None)"
proof -
  have one: "billingLoop exCollaborators (exChain\<lparr>updatePeriod := 1\<rparr>) 0 (Some exWindowHead) ([], [])
     = Ok ([(exHash 0x55, 10)], [(exHash 0x55, [(exHash 0x52, 10)])])"
    by (simp add: exWindowHead_def exNodeB1_def newBlockNode_def exBlockB2_def exBlockB1_def
        billQueryTx_def billFailedReq_def addCost_def addMinerCost_def ex_folded Let_def)
  have two: "billingLoop exCollaborators (exChain\<lparr>updatePeriod := 2\<rparr>) 0 (Some exWindowHead) ([], [])
     = Ok ([(exHash 0x55, 12)], [(exHash 0x55, [(exHash 0x51, 2)])])"
    by (simp add: exWindowHead_def exNodeB1_def newBlockNode_def exBlockB2_def exBlockB1_def
        billQueryTx_def billFailedReq_def addCost_def addMinerCost_def ex_folded Let_def)
  show ?thesis
    unfolding billing_def two using one
    by (simp add: buildUsers_def exCollaborators_def exChain_def Let_def)
qed

text \<open>
  Claim C2 fails on the code. After \<^verbatim>\<open>billing\<close> has returned an error the billing branch of
  \<^verbatim>\<open>processBlocks\<close> logs it and goes on (chain.go 706 to 729). Block \<open>B1\<close> is pushed on the
  example chain, whose update period is 1, and its node becomes the head. Where the
  database id has no account address, \<^verbatim>\<open>billing\<close> returns the update together with the
  error, and the branch requests the nonce, signs the update and submits the transaction.
  Where the keys have no address, \<^verbatim>\<open>billing\<close> returns a nil update with the error, and
  the branch requests the nonce and then panics on \<^verbatim>\<open>ub.Nonce\<close>.
\<close>

theorem processBlock_billing_error_not_aborted:
  "node (getHead (rt (fst (fst (processBlock exBadDatabaseID exBlockB1 (exChainBilling, []))))))
     = Some exNodeB1 \<and>
   billing exBadDatabaseID exChainBilling (Some exNodeB1)
     = Returns (Some (exUpdate\<lparr>ub_Nonce := 0\<rparr>), Some (External ''invalid hash'')) \<and>
   snd (processBlock exBadDatabaseID exBlockB1 (exChainBilling, []))
     = ([EvNextAccountNonce (exHash 0xAD), EvSign exUpdate,
         EvAddTx (exUpdate\<lparr>ub_Signature := Some [0x01]\<rparr>)], None) \<and>
   node (getHead (rt (fst (fst (processBlock exBadKey exBlockB1 (exChainBilling, []))))))
     = Some exNodeB1 \<and>
   billing exBadKey exChainBilling (Some exNodeB1)
     = Returns (None, Some (External ''invalid public key'')) \<and>
   snd (processBlock exBadKey exBlockB1 (exChainBilling, []))
     = ([EvNextAccountNonce (exHash 0xAD)],
        Some ''invalid memory address or nil pointer dereference'')"
proof -
  let ?c = "exChainBilling"
  let ?cr = "exChainBilling\<lparr>st := [exBlockB1]\<rparr>"
  have np: "nextProducer (rt ?c) = 1"
    by (simp add: nextProducer_def rem32_def exChainBilling_def ex_folded rt_defs word_sless_alt
        signed_modulo_int_def)
  have fd: "Find (getPeers (rt ?c)) exP1 = (1, True)"
    by (simp add: Find_def exChainBilling_def ex_folded rt_defs)
  have push: "CheckAndPushNewBlock ext exBlockB1 ?c = pushBlock ext exBlockB1 ?cr"
    if "BlockVerify ext = BlockVerify exCollaborators" "ReplayBlock ext = ReplayBlock exCollaborators"
    for ext
    using that fd np
    by (simp add: CheckAndPushNewBlock_def ReplayBlockWithContext_def Let_def exBlockB1_def
        exChainBilling_def ex_folded getHead_def getHeightFromTime_def)
  have pb: "fst (pushBlock ext exBlockB1 ?cr) = Returns None"
    "node (getHead (rt (snd (pushBlock ext exBlockB1 ?cr)))) = Some exNodeB1"
    "updatePeriod (snd (pushBlock ext exBlockB1 ?cr)) = 1"
    "addr (snd (pushBlock ext exBlockB1 ?cr)) = exHash 0xAD"
    if "EncodeBlock ext = EncodeBlock exCollaborators" "bdbPutFault ext = bdbPutFault exCollaborators"
    for ext
    using that
    by (simp_all add: pushBlock_def bdb_Put_def Let_def exBlockB1_def exChainBilling_def ex_folded
        rt_defs exNodeB1_def)
  have loopBad: "billingLoop exBadKey c' 0 (Some exNodeB1) ([], [])
      = Err (External ''invalid public key'')"
    if "updatePeriod c' = 1" for c'
    using that
    by (simp add: exNodeB1_def newBlockNode_def exBlockB1_def exBlock_def billFailedReq_def
        exBadKey_def exCollaborators_def)
  have loopOk: "billingLoop exBadDatabaseID c' 0 (Some exNodeB1) ([], [])
      = Ok ([(exHash 0x55, 2)], [(exHash 0x55, [(exHash 0x51, 2)])])"
    if "updatePeriod c' = 1" for c'
    using that
    by (simp add: exNodeB1_def newBlockNode_def exBlockB1_def exBlock_def billFailedReq_def
        exBadDatabaseID_def exCollaborators_def exGenesisNode_def exGenesis_def addCost_def
        addMinerCost_def Let_def)
  have cnt: "scast (node_count exNodeB1) mod (1 :: uint64) = 0"
    by simp
  have bill1: "billing exBadDatabaseID c' (Some exNodeB1)
      = Returns (Some (exUpdate\<lparr>ub_Nonce := 0\<rparr>), Some (External ''invalid hash''))"
    if "updatePeriod c' = 1" for c'
    unfolding billing_def loopOk [OF that]
    by (simp add: buildUsers_def exBadDatabaseID_def exCollaborators_def exUpdate_def Let_def)
  have bill2: "billing exBadKey c' (Some exNodeB1)
      = Returns (None, Some (External ''invalid public key''))"
    if "updatePeriod c' = 1" for c'
    unfolding billing_def loopBad [OF that] by simp
  have e1: "BlockVerify exBadDatabaseID = BlockVerify exCollaborators"
    "ReplayBlock exBadDatabaseID = ReplayBlock exCollaborators"
    "EncodeBlock exBadDatabaseID = EncodeBlock exCollaborators"
    "bdbPutFault exBadDatabaseID = bdbPutFault exCollaborators"
    by (simp_all add: exBadDatabaseID_def)
  have e2: "BlockVerify exBadKey = BlockVerify exCollaborators"
    "ReplayBlock exBadKey = ReplayBlock exCollaborators"
    "EncodeBlock exBadKey = EncodeBlock exCollaborators"
    "bdbPutFault exBadKey = bdbPutFault exCollaborators"
    by (simp_all add: exBadKey_def)
  have ht: "getHeightFromTime (rt ?c) (Timestamp exBlockB1) = 1" "getNextTurn (rt ?c) - 1 = 1"
    by (simp_all add: exBlockB1_def exChainBilling_def ex_folded rt_defs)
  have up: "updatePeriod ?c = 1"
    by (simp add: exChainBilling_def)
  obtain c1 where c1: "pushBlock exBadDatabaseID exBlockB1 ?cr = (Returns None, c1)"
    using pb(1) [OF e1(3,4)] by (metis prod.collapse)
  obtain c2 where c2: "pushBlock exBadKey exBlockB1 ?cr = (Returns None, c2)"
    using pb(1) [OF e2(3,4)] by (metis prod.collapse)
  have p1: "node (getHead (rt c1)) = Some exNodeB1" "updatePeriod c1 = 1" "addr c1 = exHash 0xAD"
    using pb(2,3,4) [OF e1(3,4)] c1 by simp_all
  have p2: "node (getHead (rt c2)) = Some exNodeB1" "updatePeriod c2 = 1" "addr c2 = exHash 0xAD"
    using pb(2,3,4) [OF e2(3,4)] c2 by simp_all
  have r1: "processBlock exBadDatabaseID exBlockB1 (?c, [])
      = ((c1, []), [EvNextAccountNonce (exHash 0xAD), EvSign exUpdate,
           EvAddTx (exUpdate\<lparr>ub_Signature := Some [0x01]\<rparr>)], None)"
    unfolding processBlock_def
    using ht push [OF e1(1,2)] c1 p1 bill1 [OF p1(2)] cnt
    by (simp add: Let_def submitBilling_def exBadDatabaseID_def exCollaborators_def exUpdate_def)
  have r2: "processBlock exBadKey exBlockB1 (?c, [])
      = ((c2, []), [EvNextAccountNonce (exHash 0xAD)],
         Some ''invalid memory address or nil pointer dereference'')"
    unfolding processBlock_def
    using ht push [OF e2(1,2)] c2 p2 bill2 [OF p2(2)] cnt
    by (simp add: Let_def submitBilling_def exBadKey_def exCollaborators_def)
  show ?thesis
    unfolding r1 r2 using p1 p2 bill1 [OF up] bill2 [OF up] by simp
qed

section \<open>The turn\<close>









end
